theory Spec2Isabelle
  imports Complex_Main
begin

section \<open>The job and event pipeline of the CRM server\<close>

text \<open>
  The development embeds the queue broker (\<^verbatim>\<open>config/redis.js\<close>), the two job
  dispatchers (\<^verbatim>\<open>consumers/customer.consumer.js\<close>, \<^verbatim>\<open>consumers/campaign.consumer.js\<close>),
  the campaign delivery engine and the vendor simulator with its delivery receipt sink
  (the vendor controller).

  Every \<^verbatim>\<open>async\<close> function is modelled as a state transformer on one record \<open>world\<close>
  that holds the Redis lists, the Mongo collections and the vendor's counters. A function
  that can throw returns \<open>js_error + 'a\<close> next to the new world. A handler is run to its
  end before the next one starts; the interleaving of awaits is not modelled.

  What the program reads from outside (the clock, \<^verbatim>\<open>Math.random\<close>, and whether a Redis,
  Mongo or vendor call throws) comes from an oracle \<open>env\<close>: the \<open>k\<close>-th read of the
  environment returns the oracle's value at \<open>k\<close>, and \<open>tick\<close> counts the reads.
\<close>

subsection \<open>Errors, numbers and strings of the host language\<close>

datatype js_error = Error (message: string)

text \<open>
  A JavaScript number is a binary64 value. The finite ones are rationals; \<open>fl\<close> rounds
  a rational to the nearest binary64 value (ties to even), for results in the normal
  range, which is where the quotients and percentages below lie.
\<close>

datatype js_number = NaN | Infinity | Finite rat

fun bits :: "nat \<Rightarrow> nat" where
  "bits n = (if n = 0 then 0 else Suc (bits (n div 2)))"

definition pow2 :: "int \<Rightarrow> rat" where
  "pow2 e = (if 0 \<le> e then 2 ^ nat e else 1 / 2 ^ nat (- e))"

definition expo2 :: "rat \<Rightarrow> int" where
  \<comment> \<open>for \<open>0 < x\<close>: the \<open>e\<close> with \<open>2 ^ e \<le> x < 2 ^ (e + 1)\<close>\<close>
  "expo2 x =
     (if 1 \<le> x then int (bits (nat \<lfloor>x\<rfloor>)) - 1
      else (let t = int (bits (nat \<lfloor>1 / x\<rfloor>)) - 1
            in if x = pow2 (- t) then - t else - t - 1))"

definition round_half_even :: "rat \<Rightarrow> int" where
  "round_half_even x =
     (let f = \<lfloor>x\<rfloor>; d = x - of_int f
      in if d < 1 / 2 then f else if 1 / 2 < d then f + 1
         else if even f then f else f + 1)"

definition fl :: "rat \<Rightarrow> rat" where
  "fl x =
     (if x = 0 then 0
      else (let u = pow2 (expo2 \<bar>x\<bar> - 52)
            in sgn x * of_int (round_half_even (\<bar>x\<bar> / u)) * u))"

definition js_div :: "nat \<Rightarrow> nat \<Rightarrow> js_number" where
  \<comment> \<open>\<^verbatim>\<open>a / b\<close> on two counts\<close>
  "js_div a b =
     (if b = 0 then (if a = 0 then NaN else Infinity)
      else Finite (fl (of_nat a / of_nat b)))"

fun js_mul :: "js_number \<Rightarrow> nat \<Rightarrow> js_number" where
  \<comment> \<open>\<^verbatim>\<open>x * c\<close> for a positive integer constant \<open>c\<close>\<close>
  "js_mul NaN c = NaN"
| "js_mul Infinity c = Infinity"
| "js_mul (Finite x) c = Finite (fl (x * of_nat c))"

definition digit :: "nat \<Rightarrow> char" where
  "digit d = ''0123456789'' ! d"

fun decimal :: "nat \<Rightarrow> string" where
  "decimal n =
     (if n < 10 then [digit n]
      else decimal (n div 10) @ [digit (n mod 10)])"

definition hundredths :: "rat \<Rightarrow> nat" where
  \<comment> \<open>the integer \<open>n\<close> of \<^verbatim>\<open>toFixed(2)\<close>: \<open>n / 100\<close> is nearest to \<open>x\<close>, the larger on a tie\<close>
  "hundredths x = nat \<lfloor>x * 100 + 1 / 2\<rfloor>"

fun toFixed2 :: "js_number \<Rightarrow> string" where
  \<comment> \<open>\<^verbatim>\<open>x.toFixed(2)\<close> for \<open>0 \<le> x < 10 ^ 21\<close>\<close>
  "toFixed2 NaN = ''NaN''"
| "toFixed2 Infinity = ''Infinity''"
| "toFixed2 (Finite x) =
     (let n = hundredths x
      in decimal (n div 100) @ ''.'' @ decimal (n mod 100 div 10) @ decimal (n mod 10))"

definition percentage :: "nat \<Rightarrow> nat \<Rightarrow> string" where
  \<comment> \<open>\<^verbatim>\<open>((a / b) * 100).toFixed(2)\<close>\<close>
  "percentage a b = toFixed2 (js_mul (js_div a b) 100)"


text \<open>
  The two recursive equations are unfolded by hand, or on numerals, and never by the
  simplifier on its own.
\<close>

declare decimal.simps [simp del] bits.simps [simp del]


datatype js_value = Number nat | String string

definition substr :: "string \<Rightarrow> nat \<Rightarrow> nat \<Rightarrow> string" where
  "substr s start len = take len (drop start s)"

definition toLowerCase :: "string \<Rightarrow> string" where
  \<comment> \<open>on ASCII text\<close>
  "toLowerCase s =
     map (\<lambda>c. case map_of (zip ''ABCDEFGHIJKLMNOPQRSTUVWXYZ'' ''abcdefghijklmnopqrstuvwxyz'') c of
                 None \<Rightarrow> c | Some l \<Rightarrow> l) s"

definition truthy :: "string option \<Rightarrow> bool" where
  \<comment> \<open>a missing field and the empty string are falsy\<close>
  "truthy v = (case v of None \<Rightarrow> False | Some s \<Rightarrow> s \<noteq> [])"

definition interpolate :: "string option \<Rightarrow> string" where
  \<comment> \<open>a field inside a template literal\<close>
  "interpolate v = (case v of None \<Rightarrow> ''undefined'' | Some s \<Rightarrow> s)"

datatype js_date = Date nat | Invalid_Date

definition new_Date :: "nat option \<Rightarrow> js_date" where
  "new_Date v = (case v of None \<Rightarrow> Invalid_Date | Some t \<Rightarrow> Date t)"

subsection \<open>The world\<close>

record env =
  clock :: "nat \<Rightarrow> nat"
  random :: "nat \<Rightarrow> rat"
  random36 :: "nat \<Rightarrow> string"
  fault :: "nat \<Rightarrow> string option"

text \<open>
  \<open>clock\<close> is \<^verbatim>\<open>Date.now()\<close> in milliseconds; a date and its ISO string are modelled
  by that number. \<open>random\<close> is \<^verbatim>\<open>Math.random()\<close>, \<open>random36\<close> is
  \<^verbatim>\<open>Math.random().toString(36)\<close>, and \<open>fault\<close> is the message of the error a call to
  Redis, to Mongo or to the vendor throws, if it throws.
\<close>

record 'p job =
  payload :: 'p
  j_type :: "string option"
  j_id :: "string option"
  j_timestamp :: "nat option"
  j_status :: "string option"
  j_error :: "string option"
  j_failedAt :: "nat option"

text \<open>
  A job is a JSON object. The broker and the consumer loop read \<^verbatim>\<open>type\<close> and write
  \<^verbatim>\<open>id\<close>, \<^verbatim>\<open>timestamp\<close>, \<^verbatim>\<open>status\<close>, \<^verbatim>\<open>error\<close> and \<^verbatim>\<open>failedAt\<close>, each of which a
  caller's object may or may not have; \<open>payload\<close> stands for all other fields, which
  the spread \<^verbatim>\<open>{...job, ...}\<close> copies. A queue holds the parsed objects: serialising and
  parsing again is the identity on them.
\<close>

record queue_stats =
  qs_pending :: nat
  qs_failed :: nat
  qs_total :: nat

record delivery_stats =
  dl_sent :: nat
  dl_failed :: nat
  dl_total :: nat
  dl_success_rate :: string

record campaign =
  c_status :: string
  c_started_at :: "nat option"
  c_completed_at :: "nat option"
  c_delivery_stats :: "delivery_stats option"
  c_failure_reason :: "string option"

record log_metadata =
  md_batch_processed :: "bool option"
  md_customer_name :: "string option"
  md_from_name :: "string option"
  md_from_email :: "string option"
  md_vendor_message_id :: "string option"
  md_receipt_received_at :: "nat option"
  md_vendor_webhook :: "bool option"

record communication_log =
  l_customer_id :: string
  l_campaign_id :: string
  l_message_id :: string
  l_type :: string
  l_recipient_email :: string
  l_status :: string
  l_delivered_at :: "js_date option"
  l_failure_reason :: "string option"
  l_metadata :: log_metadata

record vendor_stats =
  totalSent :: nat
  successful :: nat
  failed :: nat
  successRate :: js_value

record receipt =
  r_vendorMessageId :: "string option"
  r_messageId :: "string option"
  r_status :: "string option"
  r_deliveredAt :: "nat option"
  r_failureReason :: "string option"
  r_recipient :: "string option"
  r_campaignId :: "string option"
  r_customerId :: "string option"

datatype console_line = Log string | Warn string | Err string

record 'p world =
  env :: env
  tick :: nat
  console :: "console_line list"
  queues :: "string \<Rightarrow> 'p job list"
  campaigns :: "string \<rightharpoonup> campaign"
  journal :: "(string \<times> campaign) list"
  communication_logs :: "communication_log list"
  deliveryStats :: vendor_stats
  timers :: "(nat \<times> (nat \<Rightarrow> receipt)) list"

text \<open>
  \<open>queues\<close> are the Redis lists, the head of the HOL list being the left end.
  \<open>campaigns\<close> and \<open>communication_logs\<close> are the two Mongo collections, with the fields
  the pipeline writes; the rendered subject, body and HTML of a message are strings
  that nothing below reads, and are left out. \<open>timers\<close> are the callbacks the vendor has
  scheduled with \<^verbatim>\<open>setTimeout\<close>: the delay, and the receipt the callback will post as
  a function of the time at which it fires. A line of \<open>console\<close> is the text of the
  call's first argument without the pictograph that starts it, followed by the second
  argument, an error being shown by its message.

  \<open>journal\<close> is not a field of the program: it records, in order, every campaign
  document as a write has left it, so that the sequence of states of a campaign can be
  spoken about.
\<close>

definition Date_now :: "'p world \<Rightarrow> nat \<times> 'p world" where
  "Date_now w = (clock (env w) (tick w), w\<lparr>tick := Suc (tick w)\<rparr>)"

definition Math_random :: "'p world \<Rightarrow> rat \<times> 'p world" where
  "Math_random w = (random (env w) (tick w), w\<lparr>tick := Suc (tick w)\<rparr>)"

definition Math_random_toString36 :: "'p world \<Rightarrow> string \<times> 'p world" where
  "Math_random_toString36 w = (random36 (env w) (tick w), w\<lparr>tick := Suc (tick w)\<rparr>)"

definition external_call :: "'p world \<Rightarrow> js_error option \<times> 'p world" where
  "external_call w = (map_option Error (fault (env w) (tick w)), w\<lparr>tick := Suc (tick w)\<rparr>)"

definition console_log :: "string \<Rightarrow> 'p world \<Rightarrow> 'p world" where
  "console_log s w = w\<lparr>console := console w @ [Log s]\<rparr>"

definition console_warn :: "string \<Rightarrow> 'p world \<Rightarrow> 'p world" where
  "console_warn s w = w\<lparr>console := console w @ [Warn s]\<rparr>"

definition console_error :: "string \<Rightarrow> 'p world \<Rightarrow> 'p world" where
  "console_error s w = w\<lparr>console := console w @ [Err s]\<rparr>"

subsection \<open>The broker\<close>

definition lPush :: "string \<Rightarrow> 'p job \<Rightarrow> 'p world \<Rightarrow> (js_error + unit) \<times> 'p world" where
  "lPush key element w =
     (case external_call w of
        (Some e, w1) \<Rightarrow> (Inl e, w1)
      | (None, w1) \<Rightarrow> (Inr (), w1\<lparr>queues := (queues w1)(key := element # queues w1 key)\<rparr>))"

definition brPop :: "string \<Rightarrow> 'p world \<Rightarrow> (js_error + 'p job option) \<times> 'p world" where
  \<comment> \<open>on an empty list the call waits its ten seconds and returns null\<close>
  "brPop key w =
     (case external_call w of
        (Some e, w1) \<Rightarrow> (Inl e, w1)
      | (None, w1) \<Rightarrow>
          (if queues w1 key = [] then (Inr None, w1)
           else (Inr (Some (last (queues w1 key))),
                 w1\<lparr>queues := (queues w1)(key := butlast (queues w1 key))\<rparr>)))"

definition lLen :: "string \<Rightarrow> 'p world \<Rightarrow> (js_error + nat) \<times> 'p world" where
  "lLen key w =
     (case external_call w of
        (Some e, w1) \<Rightarrow> (Inl e, w1)
      | (None, w1) \<Rightarrow> (Inr (length (queues w1 key)), w1))"

definition addToQueue :: "string \<Rightarrow> 'p job \<Rightarrow> 'p world \<Rightarrow> (js_error + unit) \<times> 'p world" where
  "addToQueue queueName job w =
     (let (now, w1) = Date_now w;
          (r, w2) = Math_random_toString36 w1;
          (date, w3) = Date_now w2;
          jobData = job\<lparr>j_id := Some (decimal now @ ''-'' @ substr r 2 9),
                        j_timestamp := Some date,
                        j_status := Some ''pending''\<rparr>
      in (case lPush queueName jobData w3 of
            (Inl error, w4) \<Rightarrow>
              (Inl error,
               console_error (''Failed to add job to '' @ queueName @ '': '' @ message error) w4)
          | (Inr u, w4) \<Rightarrow>
              (Inr (),
               console_log (''Added job to '' @ queueName @ '': ''
                            @ (if truthy (j_type job) then the (j_type job) else ''job'')) w4)))"

type_synonym 'p handler = "'p job \<Rightarrow> 'p world \<Rightarrow> ((js_error + unit) \<times> 'p world) option"

text \<open>
  A handler that does not return is the value \<open>None\<close>. One turn of the loop
  \<^verbatim>\<open>while (true)\<close> of \<^verbatim>\<open>processQueue\<close> is \<open>processQueue_iteration\<close>; \<open>processQueue\<close> runs
  a given number of turns. The five seconds the loop waits after an error of the
  broker change nothing in the world.
\<close>

definition processQueue_iteration :: "string \<Rightarrow> 'p handler \<Rightarrow> 'p world \<Rightarrow> 'p world option" where
  "processQueue_iteration queueName callback w =
     (case brPop queueName w of
        (Inl error, w1) \<Rightarrow>
          Some (console_error (''Error processing queue '' @ queueName @ '': '' @ message error) w1)
      | (Inr None, w1) \<Rightarrow> Some w1
      | (Inr (Some job), w1) \<Rightarrow>
          (let w2 = console_log (''Processing job '' @ interpolate (j_id job) @ '' from '' @ queueName) w1
           in (case callback job w2 of
                 None \<Rightarrow> None
               | Some (Inr u, w3) \<Rightarrow>
                   Some (console_log (''Job '' @ interpolate (j_id job) @ '' completed successfully'') w3)
               | Some (Inl jobError, w3) \<Rightarrow>
                   (let w4 = console_error (''Job '' @ interpolate (j_id job) @ '' failed: ''
                                            @ message jobError) w3;
                        (date, w5) = Date_now w4
                    in (case addToQueue (queueName @ '':failed'')
                               (job\<lparr>j_error := Some (message jobError), j_failedAt := Some date\<rparr>) w5 of
                          (Inl error, w6) \<Rightarrow>
                            Some (console_error (''Error processing queue '' @ queueName @ '': ''
                                                 @ message error) w6)
                        | (Inr u, w6) \<Rightarrow> Some w6)))))"

fun processQueue :: "nat \<Rightarrow> string \<Rightarrow> 'p handler \<Rightarrow> 'p world \<Rightarrow> 'p world option" where
  "processQueue 0 queueName callback w = Some w"
| "processQueue (Suc n) queueName callback w =
     (case processQueue_iteration queueName callback w of
        None \<Rightarrow> None
      | Some w1 \<Rightarrow> processQueue n queueName callback w1)"

definition getQueueStats :: "string \<Rightarrow> 'p world \<Rightarrow> queue_stats \<times> 'p world" where
  "getQueueStats queueName w =
     (case lLen queueName w of
        (Inl error, w1) \<Rightarrow>
          (\<lparr>qs_pending = 0, qs_failed = 0, qs_total = 0\<rparr>,
           console_error (''Failed to get stats for '' @ queueName @ '': '' @ message error) w1)
      | (Inr len, w1) \<Rightarrow>
          (case lLen (queueName @ '':failed'') w1 of
             (Inl error, w2) \<Rightarrow>
               (\<lparr>qs_pending = 0, qs_failed = 0, qs_total = 0\<rparr>,
                console_error (''Failed to get stats for '' @ queueName @ '': '' @ message error) w2)
           | (Inr failedLength, w2) \<Rightarrow>
               (\<lparr>qs_pending = len, qs_failed = failedLength,
                 qs_total = len + failedLength\<rparr>, w2)))"

subsection \<open>The job dispatchers\<close>

text \<open>
  The five handlers of the customer consumer work on the \<^verbatim>\<open>User\<close> and \<^verbatim>\<open>Customer\<close>
  models, which are outside this development; the dispatcher takes them as parameters.
  They receive \<^verbatim>\<open>job.data\<close>, which is part of the payload.
\<close>

record 'p customer_handlers =
  createCustomer :: "'p \<Rightarrow> 'p world \<Rightarrow> ((js_error + unit) \<times> 'p world) option"
  updateCustomer :: "'p \<Rightarrow> 'p world \<Rightarrow> ((js_error + unit) \<times> 'p world) option"
  deleteCustomer :: "'p \<Rightarrow> 'p world \<Rightarrow> ((js_error + unit) \<times> 'p world) option"
  bulkImportCustomers :: "'p \<Rightarrow> 'p world \<Rightarrow> ((js_error + unit) \<times> 'p world) option"
  updateCustomerStats :: "'p \<Rightarrow> 'p world \<Rightarrow> ((js_error + unit) \<times> 'p world) option"

definition processCustomerJob_switch :: "'p customer_handlers \<Rightarrow> 'p handler" where
  "processCustomerJob_switch this job w =
     (if j_type job = Some ''CREATE_CUSTOMER'' then createCustomer this (payload job) w
      else if j_type job = Some ''UPDATE_CUSTOMER'' then updateCustomer this (payload job) w
      else if j_type job = Some ''DELETE_CUSTOMER'' then deleteCustomer this (payload job) w
      else if j_type job = Some ''BULK_IMPORT_CUSTOMERS'' then bulkImportCustomers this (payload job) w
      else if j_type job = Some ''UPDATE_CUSTOMER_STATS'' then updateCustomerStats this (payload job) w
      else Some (Inl (Error (''Unknown job type: '' @ interpolate (j_type job))), w))"

definition processCustomerJob :: "'p customer_handlers \<Rightarrow> 'p handler" where
  "processCustomerJob this job w =
     (let w1 = console_log (''Processing customer job: '' @ interpolate (j_type job)) w
      in (case processCustomerJob_switch this job w1 of
            None \<Rightarrow> None
          | Some (Inr u, w2) \<Rightarrow> Some (Inr (), w2)
          | Some (Inl error, w2) \<Rightarrow>
              Some (Inl error,
                    console_error (''Customer job '' @ interpolate (j_type job) @ '' failed: ''
                                   @ message error) w2)))"

subsection \<open>Batches\<close>

definition slice :: "'a list \<Rightarrow> nat \<Rightarrow> nat \<Rightarrow> 'a list" where
  "slice array start end = take (end - start) (drop start array)"

partial_function (option) createBatches_loop ::
  "'a list \<Rightarrow> nat \<Rightarrow> nat \<Rightarrow> 'a list list \<Rightarrow> 'a list list option" where
  "createBatches_loop array batchSize i batches =
     (if i < length array
      then createBatches_loop array batchSize (i + batchSize)
             (batches @ [slice array i (i + batchSize)])
      else Some batches)"

declare createBatches_loop.simps [code]

definition createBatches :: "'a list \<Rightarrow> nat \<Rightarrow> 'a list list option" where
  "createBatches array batchSize = createBatches_loop array batchSize 0 []"

text \<open>
  With \<open>batchSize = 0\<close> and a non-empty array the loop of the source never ends; the
  value \<open>None\<close> stands for that.
\<close>

text \<open>
  The lengths that batches of size \<open>b\<close> of \<open>n\<close> elements are to have: full ones, then
  the remainder if there is one.
\<close>

definition batch_lengths :: "nat \<Rightarrow> nat \<Rightarrow> nat list" where
  "batch_lengths n b = replicate (n div b) b @ (if n mod b = 0 then [] else [n mod b])"

subsection \<open>The vendor simulator\<close>

record email =
  em_messageId :: string
  em_to :: string
  em_campaignId :: string
  em_customerId :: string

record send_result =
  sr_success :: bool
  sr_vendorMessageId :: "string option"
  sr_status :: string
  sr_estimatedDelivery :: "string option"
  sr_error :: "string option"

record bulk_detail =
  bd_to :: string
  bd_messageId :: string
  bd_vendorMessageId :: "string option"
  bd_status :: string
  bd_error :: "string option"

record bulk_results =
  br_sent :: nat
  br_failed :: nat
  br_total :: nat
  br_details :: "bulk_detail list"

definition updateStats :: "bool \<Rightarrow> vendor_stats \<Rightarrow> vendor_stats" where
  "updateStats isSuccess s =
     (let s1 = s\<lparr>totalSent := totalSent s + 1\<rparr>;
          s2 = (if isSuccess then s1\<lparr>successful := successful s1 + 1\<rparr>
                else s1\<lparr>failed := failed s1 + 1\<rparr>)
      in s2\<lparr>successRate := String (percentage (successful s2) (totalSent s2))\<rparr>)"

definition resetStats :: "vendor_stats" where
  \<comment> \<open>also the value the constructor sets\<close>
  "resetStats = \<lparr>totalSent = 0, successful = 0, failed = 0, successRate = Number 0\<rparr>"

definition reasons :: "string list" where
  "reasons =
     [''Recipient mailbox full'', ''Invalid email address'', ''Spam filter rejection'',
      ''Temporary server error'', ''Recipient domain not found'', ''Message too large'',
      ''Bounce - user unknown'', ''Rate limit exceeded'', ''Content policy violation'',
      ''Temporary network error'']"

definition getRandomFailureReason :: "'p world \<Rightarrow> string option \<times> 'p world" where
  "getRandomFailureReason w =
     (let (r, w1) = Math_random w;
          i = nat \<lfloor>fl (r * of_nat (length reasons))\<rfloor>
      in (if i < length reasons then Some (reasons ! i) else None, w1))"

definition simulateDelay :: "nat \<Rightarrow> nat \<Rightarrow> 'p world \<Rightarrow> 'p world" where
  \<comment> \<open>draws the delay and waits\<close>
  "simulateDelay minMs maxMs w = snd (Math_random w)"

definition getRandomDelay :: "nat \<Rightarrow> nat \<Rightarrow> 'p world \<Rightarrow> nat \<times> 'p world" where
  "getRandomDelay min' max' w =
     (let (r, w1) = Math_random w
      in (nat \<lfloor>fl (r * of_nat (max' - min' + 1))\<rfloor> + min', w1))"

definition generateVendorMessageId :: "'p world \<Rightarrow> string \<times> 'p world" where
  "generateVendorMessageId w =
     (let (timestamp, w1) = Date_now w;
          (r, w2) = Math_random_toString36 w1
      in (''vendor_'' @ decimal timestamp @ ''_'' @ substr r 2 8, w2))"

text \<open>
  The vendor's own work is a simulation in which nothing throws. The error a vendor
  call would raise is taken from the oracle: where the try block of \<^verbatim>\<open>sendEmail\<close>
  starts, and where \<^verbatim>\<open>sendBulkEmails\<close> is entered, so that a bulk call which fails as a
  whole fails before its first e-mail.
\<close>

definition sendEmail :: "email \<Rightarrow> 'p world \<Rightarrow> (js_error + send_result) \<times> 'p world" where
  "sendEmail emailData w =
     (case external_call w of
        (None, w0) \<Rightarrow>
          (let w1 = simulateDelay 50 200 w0;
               (r, w2) = Math_random w1;
               isSuccess = (r < fl (9 / 10));
               (vendorMessageId, w3) = generateVendorMessageId w2;
               status = (if isSuccess then ''SENT'' else ''FAILED'');
               (timestamp, w4) = Date_now w3;
               (failureReason, w5) = (if isSuccess then (None, w4) else getRandomFailureReason w4);
               w6 = w5\<lparr>deliveryStats := updateStats isSuccess (deliveryStats w5)\<rparr>;
               (delay, w7) = getRandomDelay 100 500 w6;
               w8 = w7\<lparr>timers := timers w7 @
                      [(delay, \<lambda>fired.
                          \<lparr>r_vendorMessageId = Some vendorMessageId,
                           r_messageId = Some (em_messageId emailData),
                           r_status = Some status,
                           r_deliveredAt = Some timestamp,
                           r_failureReason = failureReason,
                           r_recipient = Some (em_to emailData),
                           r_campaignId = Some (em_campaignId emailData),
                           r_customerId = Some (em_customerId emailData)\<rparr>)]\<rparr>;
               w9 = console_log (''Vendor API: Email to '' @ em_to emailData @ '' - '' @ status
                                 @ '' ('' @ vendorMessageId @ '')'') w8
           in (Inr \<lparr>sr_success = True, sr_vendorMessageId = Some vendorMessageId,
                     sr_status = status,
                     sr_estimatedDelivery = Some (if isSuccess then ''1-3 minutes'' else ''Failed''),
                     sr_error = None\<rparr>, w9))
      | (Some error, w0) \<Rightarrow>
          (let w1 = console_error (''Vendor API Error: '' @ message error) w0;
               w2 = w1\<lparr>timers := timers w1 @
                      [(100, \<lambda>fired.
                          \<lparr>r_vendorMessageId = None,
                           r_messageId = Some (em_messageId emailData),
                           r_status = Some ''FAILED'',
                           r_deliveredAt = Some fired,
                           r_failureReason = Some (''Vendor API Error: '' @ message error),
                           r_recipient = Some (em_to emailData),
                           r_campaignId = Some (em_campaignId emailData),
                           r_customerId = Some (em_customerId emailData)\<rparr>)]\<rparr>
           in (Inr \<lparr>sr_success = False, sr_vendorMessageId = None, sr_status = ''FAILED'',
                     sr_estimatedDelivery = None, sr_error = Some (message error)\<rparr>, w2)))"

fun sendBulkEmails_loop :: "email list \<Rightarrow> bulk_results \<Rightarrow> 'p world \<Rightarrow> bulk_results \<times> 'p world" where
  "sendBulkEmails_loop [] results w = (results, w)"
| "sendBulkEmails_loop (email # rest) results w =
     (case sendEmail email w of
        (Inr result, w1) \<Rightarrow>
          (let results1 = (if sr_success result \<and> sr_status result = ''SENT''
                           then results\<lparr>br_sent := br_sent results + 1\<rparr>
                           else results\<lparr>br_failed := br_failed results + 1\<rparr>);
               results2 = results1\<lparr>br_details := br_details results1 @
                            [\<lparr>bd_to = em_to email, bd_messageId = em_messageId email,
                              bd_vendorMessageId = sr_vendorMessageId result,
                              bd_status = sr_status result, bd_error = None\<rparr>]\<rparr>;
               w2 = (if rest \<noteq> [] then simulateDelay 10 50 w1 else w1)
           in sendBulkEmails_loop rest results2 w2)
      | (Inl error, w1) \<Rightarrow>
          sendBulkEmails_loop rest
            (results\<lparr>br_failed := br_failed results + 1,
                     br_details := br_details results @
                       [\<lparr>bd_to = em_to email, bd_messageId = em_messageId email,
                         bd_vendorMessageId = None, bd_status = ''FAILED'',
                         bd_error = Some (message error)\<rparr>]\<rparr>) w1)"

definition sendBulkEmails :: "email list \<Rightarrow> 'p world \<Rightarrow> (js_error + bulk_results) \<times> 'p world" where
  "sendBulkEmails emailBatch w =
     (case external_call w of
        (Some error, w0) \<Rightarrow> (Inl error, w0)
      | (None, w0) \<Rightarrow>
          (let results = \<lparr>br_sent = 0, br_failed = 0, br_total = length emailBatch, br_details = []\<rparr>;
               w1 = console_log (''Vendor API: Processing bulk batch of ''
                                 @ decimal (length emailBatch) @ '' emails'') w0;
               (results', w2) = sendBulkEmails_loop emailBatch results w1;
               w3 = console_log (''Vendor API Batch Complete: '' @ decimal (br_sent results')
                                 @ '' sent, '' @ decimal (br_failed results') @ '' failed'') w2
           in (Inr results', w3)))"

subsection \<open>The two collections\<close>

text \<open>
  A Mongo call that throws writes nothing. \<^verbatim>\<open>findByIdAndUpdate\<close> on an identifier
  that no campaign has returns null and writes nothing.
\<close>

definition Campaign_findByIdAndUpdate ::
  "string \<Rightarrow> (campaign \<Rightarrow> campaign) \<Rightarrow> 'p world \<Rightarrow> (js_error + campaign option) \<times> 'p world" where
  "Campaign_findByIdAndUpdate id' update w =
     (case external_call w of
        (Some error, w1) \<Rightarrow> (Inl error, w1)
      | (None, w1) \<Rightarrow>
          (case campaigns w1 id' of
             None \<Rightarrow> (Inr None, w1)
           | Some c \<Rightarrow>
               (Inr (Some c),
                w1\<lparr>campaigns := (campaigns w1)(id' \<mapsto> update c),
                   journal := journal w1 @ [(id', update c)]\<rparr>)))"

definition CommunicationLog_insertMany ::
  "communication_log list \<Rightarrow> 'p world \<Rightarrow> (js_error + communication_log list) \<times> 'p world" where
  "CommunicationLog_insertMany logs w =
     (case external_call w of
        (Some error, w1) \<Rightarrow> (Inl error, w1)
      | (None, w1) \<Rightarrow> (Inr logs, w1\<lparr>communication_logs := communication_logs w1 @ logs\<rparr>))"

definition CommunicationLog_updateMany ::
  "string list \<Rightarrow> (communication_log \<Rightarrow> communication_log) \<Rightarrow> 'p world
     \<Rightarrow> (js_error + unit) \<times> 'p world" where
  \<comment> \<open>the filter \<^verbatim>\<open>{ message_id: { $in: ids } }\<close>\<close>
  "CommunicationLog_updateMany ids update w =
     (case external_call w of
        (Some error, w1) \<Rightarrow> (Inl error, w1)
      | (None, w1) \<Rightarrow>
          (Inr (),
           w1\<lparr>communication_logs :=
                 map (\<lambda>l. if l_message_id l \<in> set ids then update l else l)
                     (communication_logs w1)\<rparr>))"

fun update_first :: "('a \<Rightarrow> bool) \<Rightarrow> ('a \<Rightarrow> 'a) \<Rightarrow> 'a list \<Rightarrow> 'a list" where
  "update_first P f [] = []"
| "update_first P f (x # xs) = (if P x then f x # xs else x # update_first P f xs)"

definition CommunicationLog_findOneAndUpdate ::
  "string \<Rightarrow> (communication_log \<Rightarrow> communication_log) \<Rightarrow> 'p world
     \<Rightarrow> (js_error + communication_log option) \<times> 'p world" where
  \<comment> \<open>the filter \<^verbatim>\<open>{ message_id: messageId }\<close>, the option \<^verbatim>\<open>{ new: true }\<close>\<close>
  "CommunicationLog_findOneAndUpdate messageId update w =
     (case external_call w of
        (Some error, w1) \<Rightarrow> (Inl error, w1)
      | (None, w1) \<Rightarrow>
          (case find (\<lambda>l. l_message_id l = messageId) (communication_logs w1) of
             None \<Rightarrow> (Inr None, w1)
           | Some l \<Rightarrow>
               (Inr (Some (update l)),
                w1\<lparr>communication_logs :=
                      update_first (\<lambda>l. l_message_id l = messageId) update
                        (communication_logs w1)\<rparr>)))"

subsection \<open>The campaign delivery engine\<close>

record customer =
  cu_id :: string
  cu_name :: "string option"
  cu_email :: string

record message_content =
  mc_subject :: string
  mc_message :: string
  mc_from_name :: string
  mc_from_email :: string

record campaign_payload =
  campaignId :: string
  segmentId :: string
  customers :: "customer list"
  messageContent :: message_content
  userId :: string
  userEmail :: string

definition generateMessageId :: "'p world \<Rightarrow> string \<times> 'p world" where
  "generateMessageId w =
     (let (timestamp, w1) = Date_now w;
          (r, w2) = Math_random_toString36 w1
      in (''msg_'' @ decimal timestamp @ ''_'' @ substr r 2 9, w2))"

fun new_logs :: "customer list \<Rightarrow> string \<Rightarrow> message_content \<Rightarrow> 'p world
                   \<Rightarrow> communication_log list \<times> 'p world" where
  \<comment> \<open>the \<^verbatim>\<open>customers.map(...)\<close> of \<^verbatim>\<open>createCommunicationLogs\<close>\<close>
  "new_logs [] campaignId' mc w = ([], w)"
| "new_logs (customer # rest) campaignId' mc w =
     (let (message_id, w1) = generateMessageId w;
          l = \<lparr>l_customer_id = cu_id customer,
               l_campaign_id = campaignId',
               l_message_id = message_id,
               l_type = ''email'',
               l_recipient_email = cu_email customer,
               l_status = ''pending'',
               l_delivered_at = None,
               l_failure_reason = None,
               l_metadata =
                 \<lparr>md_batch_processed = Some True,
                  md_customer_name = cu_name customer,
                  md_from_name = Some (mc_from_name mc),
                  md_from_email = Some (mc_from_email mc),
                  md_vendor_message_id = None,
                  md_receipt_received_at = None,
                  md_vendor_webhook = None\<rparr>\<rparr>;
          (logs, w2) = new_logs rest campaignId' mc w1
      in (l # logs, w2))"

definition createCommunicationLogs ::
  "customer list \<Rightarrow> string \<Rightarrow> message_content \<Rightarrow> 'p world
     \<Rightarrow> (js_error + communication_log list) \<times> 'p world" where
  "createCommunicationLogs customers' campaignId' mc w =
     (let (logs, w1) = new_logs customers' campaignId' mc w
      in CommunicationLog_insertMany logs w1)"

text \<open>
  The body of the loop over the batches, for the batch at \<open>batchIndex\<close> of \<open>n\<close>: it
  returns what the turn adds to \<^verbatim>\<open>sentCount\<close> and to \<^verbatim>\<open>failedCount\<close>. The second of
  delay between two batches changes nothing in the world.
\<close>

definition deliverCampaign_batch ::
  "campaign_payload \<Rightarrow> nat \<Rightarrow> nat \<Rightarrow> customer list \<Rightarrow> 'p world
     \<Rightarrow> (js_error + nat \<times> nat) \<times> 'p world" where
  "deliverCampaign_batch job n batchIndex batch w =
     (let w1 = console_log ('' Processing batch '' @ decimal (batchIndex + 1) @ ''/'' @ decimal n
                            @ '' ('' @ decimal (length batch) @ '' emails)'') w
      in (case createCommunicationLogs batch (campaignId job) (messageContent job) w1 of
            (Inl error, w2) \<Rightarrow> (Inl error, w2)
          | (Inr communicationLogs, w2) \<Rightarrow>
              (let emailBatch =
                     map (\<lambda>(customer, l).
                            \<lparr>em_messageId = l_message_id l, em_to = cu_email customer,
                             em_campaignId = campaignId job, em_customerId = cu_id customer\<rparr>)
                         (zip batch communicationLogs)
               in (case sendBulkEmails emailBatch w2 of
                     (Inr batchResult, w3) \<Rightarrow>
                       (Inr (br_sent batchResult, br_failed batchResult),
                        console_log ('' Batch '' @ decimal (batchIndex + 1) @ '' completed: ''
                                     @ decimal (br_sent batchResult) @ '' sent, ''
                                     @ decimal (br_failed batchResult) @ '' failed'') w3)
                   | (Inl batchError, w3) \<Rightarrow>
                       (let w4 = console_error ('' Batch '' @ decimal (batchIndex + 1) @ '' failed: ''
                                                @ message batchError) w3;
                            (date, w5) = Date_now w4
                        in (case CommunicationLog_updateMany (map l_message_id communicationLogs)
                                   (\<lambda>l. l\<lparr>l_status := ''failed'',
                                           l_failure_reason :=
                                             Some (''Batch processing error: '' @ message batchError),
                                           l_delivered_at := Some (Date date)\<rparr>) w5 of
                              (Inl error, w6) \<Rightarrow> (Inl error, w6)
                            | (Inr u, w6) \<Rightarrow> (Inr (0, length batch), w6)))))))"

fun deliverCampaign_batches ::
  "campaign_payload \<Rightarrow> nat \<Rightarrow> nat \<Rightarrow> customer list list \<Rightarrow> nat \<Rightarrow> nat \<Rightarrow> 'p world
     \<Rightarrow> (js_error + nat \<times> nat) \<times> 'p world" where
  "deliverCampaign_batches job n batchIndex [] sentCount failedCount w =
     (Inr (sentCount, failedCount), w)"
| "deliverCampaign_batches job n batchIndex (batch # rest) sentCount failedCount w =
     (case deliverCampaign_batch job n batchIndex batch w of
        (Inl error, w1) \<Rightarrow> (Inl error, w1)
      | (Inr (sent, failed'), w1) \<Rightarrow>
          deliverCampaign_batches job n (batchIndex + 1) rest
            (sentCount + sent) (failedCount + failed') w1)"

definition batchSize :: nat where
  "batchSize = 10"

definition deliverCampaign_try ::
  "campaign_payload \<Rightarrow> 'p world \<Rightarrow> ((js_error + unit) \<times> 'p world) option" where
  "deliverCampaign_try job w =
     (let (date, w1) = Date_now w
      in (case Campaign_findByIdAndUpdate (campaignId job)
                 (\<lambda>c. c\<lparr>c_status := ''processing'', c_started_at := Some date\<rparr>) w1 of
            (Inl error, w2) \<Rightarrow> Some (Inl error, w2)
          | (Inr found, w2) \<Rightarrow>
              (let w3 = console_log ('' Starting campaign delivery: '' @ campaignId job @ '' to ''
                                     @ decimal (length (customers job)) @ '' customers'') w2
               in (case createBatches (customers job) batchSize of
                     None \<Rightarrow> None
                   | Some batches \<Rightarrow>
                       (case deliverCampaign_batches job (length batches) 0 batches 0 0 w3 of
                          (Inl error, w4) \<Rightarrow> Some (Inl error, w4)
                        | (Inr (sentCount, failedCount), w4) \<Rightarrow>
                            (let (date', w5) = Date_now w4
                             in (case Campaign_findByIdAndUpdate (campaignId job)
                                        (\<lambda>c. c\<lparr>c_status := ''completed'',
                                                c_completed_at := Some date',
                                                c_delivery_stats :=
                                                  Some \<lparr>dl_sent = sentCount,
                                                        dl_failed = failedCount,
                                                        dl_total = length (customers job),
                                                        dl_success_rate =
                                                          percentage sentCount
                                                            (length (customers job))\<rparr>\<rparr>) w5 of
                                   (Inl error, w6) \<Rightarrow> Some (Inl error, w6)
                                 | (Inr found', w6) \<Rightarrow>
                                     Some (Inr (),
                                           console_log ('' Campaign '' @ campaignId job
                                                        @ '' completed: '' @ decimal sentCount
                                                        @ '' sent, '' @ decimal failedCount
                                                        @ '' failed'') w6))))))))"

definition deliverCampaign ::
  "campaign_payload \<Rightarrow> 'p world \<Rightarrow> ((js_error + unit) \<times> 'p world) option" where
  "deliverCampaign job w =
     (case deliverCampaign_try job w of
        None \<Rightarrow> None
      | Some (Inr u, w1) \<Rightarrow> Some (Inr (), w1)
      | Some (Inl error, w1) \<Rightarrow>
          (let w2 = console_error ('' Campaign delivery failed for '' @ campaignId job @ '': ''
                                   @ message error) w1;
               (date, w3) = Date_now w2
           in (case Campaign_findByIdAndUpdate (campaignId job)
                      (\<lambda>c. c\<lparr>c_status := ''failed'', c_completed_at := Some date,
                              c_failure_reason := Some (message error)\<rparr>) w3 of
                 (Inl error', w4) \<Rightarrow> Some (Inl error', w4)
               | (Inr found, w4) \<Rightarrow> Some (Inl error, w4))))"

definition processCampaignJob :: "campaign_payload handler" where
  "processCampaignJob job w =
     (let w1 = console_log ('' Processing campaign job: '' @ interpolate (j_type job)
                            @ '' for campaign '' @ campaignId (payload job)) w
      in (case (if j_type job = Some ''DELIVER_CAMPAIGN'' then deliverCampaign (payload job) w1
                else Some (Inr (), console_log ('' Unknown campaign job type: ''
                                                @ interpolate (j_type job)) w1)) of
            None \<Rightarrow> None
          | Some (Inr u, w2) \<Rightarrow> Some (Inr (), w2)
          | Some (Inl error, w2) \<Rightarrow>
              Some (Inl error,
                    console_error ('' Failed to process campaign job '' @ campaignId (payload job)
                                   @ '': '' @ message error) w2)))"

subsection \<open>The delivery receipt sink\<close>

record http_response =
  status_code :: nat
  body_success :: bool
  body_message :: string
  body_error :: "string option"

definition handleDeliveryReceipt :: "receipt \<Rightarrow> 'p world \<Rightarrow> http_response \<times> 'p world" where
  "handleDeliveryReceipt receiptData w =
     (if \<not> truthy (r_messageId receiptData)
      then (\<lparr>status_code = 400, body_success = False,
              body_message = ''messageId is required'', body_error = None\<rparr>, w)
      else if \<not> truthy (r_status receiptData)
      then (\<lparr>status_code = 400, body_success = False,
              body_message = ''status is required'', body_error = None\<rparr>, w)
      else
        (let messageId = the (r_messageId receiptData);
             status = the (r_status receiptData);
             (received, w1) = Date_now w
         in (case CommunicationLog_findOneAndUpdate messageId
                    (\<lambda>l. l\<lparr>l_status := toLowerCase status,
                            l_delivered_at :=
                              (if status = ''SENT'' then Some (new_Date (r_deliveredAt receiptData))
                               else None),
                            l_failure_reason := r_failureReason receiptData,
                            l_metadata :=
                              \<lparr>md_batch_processed = None, md_customer_name = None,
                               md_from_name = None, md_from_email = None,
                               md_vendor_message_id = r_vendorMessageId receiptData,
                               md_receipt_received_at = Some received,
                               md_vendor_webhook = Some True\<rparr>\<rparr>) w1 of
               (Inl error, w2) \<Rightarrow>
                 (\<lparr>status_code = 500, body_success = False,
                   body_message = ''Failed to process delivery receipt'',
                   body_error = Some (message error)\<rparr>,
                  console_error (''Delivery Receipt Error: '' @ message error) w2)
             | (Inr None, w2) \<Rightarrow>
                 (\<lparr>status_code = 404, body_success = False,
                   body_message = ''Communication log not found'', body_error = None\<rparr>,
                  console_warn (''Communication log not found for message: '' @ messageId) w2)
             | (Inr (Some communicationLog), w2) \<Rightarrow>
                 (\<lparr>status_code = 200, body_success = True,
                   body_message = ''Delivery receipt processed successfully'', body_error = None\<rparr>,
                  console_log (''Delivery receipt processed: '' @ messageId @ '' -> '' @ status) w2))))"

subsection \<open>The three writes of the engine, and the lifecycle\<close>

text \<open>
  The update documents that \<^verbatim>\<open>deliverCampaign\<close> passes to \<^verbatim>\<open>findByIdAndUpdate\<close>, as
  functions on a campaign: when it starts, when all batches are done, and in its catch
  clause.
\<close>

definition processing :: "nat \<Rightarrow> campaign \<Rightarrow> campaign" where
  "processing date c = c\<lparr>c_status := ''processing'', c_started_at := Some date\<rparr>"

definition completed :: "nat \<Rightarrow> nat \<Rightarrow> nat \<Rightarrow> nat \<Rightarrow> campaign \<Rightarrow> campaign" where
  "completed date sentCount failedCount n c =
     c\<lparr>c_status := ''completed'', c_completed_at := Some date,
       c_delivery_stats := Some \<lparr>dl_sent = sentCount, dl_failed = failedCount, dl_total = n,
                                 dl_success_rate = percentage sentCount n\<rparr>\<rparr>"

definition failed_with :: "nat \<Rightarrow> js_error \<Rightarrow> campaign \<Rightarrow> campaign" where
  "failed_with date error c =
     c\<lparr>c_status := ''failed'', c_completed_at := Some date,
       c_failure_reason := Some (message error)\<rparr>"

text \<open>
  The edges of the lifecycle \<^verbatim>\<open>pending -> processing -> {completed | failed}\<close>, and the
  edge \<^verbatim>\<open>pending -> failed\<close>, which the engine takes when its first write throws.
\<close>

definition lifecycle_step :: "string \<Rightarrow> string \<Rightarrow> bool" where
  "lifecycle_step a b \<longleftrightarrow>
     (a, b) \<in> {(''pending'', ''processing''), (''processing'', ''completed''),
               (''processing'', ''failed''), (''pending'', ''failed'')}"

fun lifecycle_path :: "string \<Rightarrow> string list \<Rightarrow> bool" where
  "lifecycle_path a [] = True"
| "lifecycle_path a (b # bs) = (lifecycle_step a b \<and> lifecycle_path b bs)"

definition completedAt_iff_terminal :: "campaign \<Rightarrow> bool" where
  "completedAt_iff_terminal c \<longleftrightarrow>
     (c_completed_at c \<noteq> None) = (c_status c = ''completed'' \<or> c_status c = ''failed'')"

subsection \<open>What a step leaves alone\<close>

text \<open>
  \<open>unchanged w w'\<close>: from \<open>w\<close> to \<open>w'\<close> the environment, the campaigns with their journal
  and the Redis lists are the same.
\<close>

definition unchanged :: "'p world \<Rightarrow> 'p world \<Rightarrow> bool" where
  "unchanged w w' \<longleftrightarrow>
     env w' = env w \<and> campaigns w' = campaigns w \<and> journal w' = journal w \<and> queues w' = queues w"

subsection \<open>A concrete scenario\<close>

text \<open>
  The worlds and jobs on which the properties below are instantiated: an environment
  \<open>scenario_env\<close> whose clock starts at 1000 and advances by one with every read, whose
  draws are 0.5 for the first twenty reads and 0.95 from then on (the first below 0.9,
  the second not), and in which exactly the reads listed in \<open>faulty\<close> are calls that
  throw, each with the number of the read in its message; a world with one
  pending campaign \<^verbatim>\<open>c1\<close> and nothing else; a job that delivers it to \<open>n\<close> customers.
\<close>

definition scenario_env :: "nat list \<Rightarrow> env" where
  "scenario_env faulty =
     \<lparr>clock = (\<lambda>k. 1000 + k),
      random = (\<lambda>k. if k < 20 then 1 / 2 else 19 / 20),
      random36 = (\<lambda>k. ''0.k3x9q2m7pzw4''),
      fault = (\<lambda>k. if k \<in> set faulty then Some (''connection lost #'' @ decimal k)
                   else None)\<rparr>"

definition pending_campaign :: campaign where
  "pending_campaign =
     \<lparr>c_status = ''pending'', c_started_at = None, c_completed_at = None,
      c_delivery_stats = None, c_failure_reason = None\<rparr>"

definition scenario_world :: "nat list \<Rightarrow> campaign_payload world" where
  "scenario_world faulty =
     \<lparr>env = scenario_env faulty, tick = 0, console = [], queues = (\<lambda>q. []),
      campaigns = [''c1'' \<mapsto> pending_campaign], journal = [], communication_logs = [],
      deliveryStats = resetStats, timers = []\<rparr>"

definition scenario_customer :: "nat \<Rightarrow> customer" where
  "scenario_customer i =
     \<lparr>cu_id = ''u'' @ decimal i, cu_name = Some ''Ann'', cu_email = ''ann@example.com''\<rparr>"

definition scenario_payload :: "nat \<Rightarrow> campaign_payload" where
  "scenario_payload n =
     \<lparr>campaignId = ''c1'', segmentId = ''s1'', customers = map scenario_customer [0..<n],
      messageContent = \<lparr>mc_subject = ''Hello {name}'', mc_message = ''Dear {firstName}'',
                        mc_from_name = ''CRM'', mc_from_email = ''crm@example.com''\<rparr>,
      userId = ''admin'', userEmail = ''admin@example.com''\<rparr>"

definition scenario_job :: "string \<Rightarrow> nat \<Rightarrow> campaign_payload job" where
  "scenario_job type n =
     \<lparr>payload = scenario_payload n, j_type = Some type, j_id = Some ''mine'',
      j_timestamp = Some 7, j_status = Some ''done'', j_error = None, j_failedAt = None\<rparr>"



definition scenario_handlers :: "campaign_payload customer_handlers" where
  "scenario_handlers =
     \<lparr>createCustomer = (\<lambda>data w. Some (Inr (), w)),
      updateCustomer = (\<lambda>data w. Some (Inr (), w)),
      deleteCustomer = (\<lambda>data w. Some (Inr (), w)),
      bulkImportCustomers = (\<lambda>data w. Some (Inr (), w)),
      updateCustomerStats = (\<lambda>data w. Some (Inr (), w))\<rparr>"

section \<open>Properties\<close>

subsection \<open>Reads of the environment\<close>

lemma environment_reads [simp]:
  "snd (Date_now w) = w\<lparr>tick := Suc (tick w)\<rparr>"
  "snd (Math_random w) = w\<lparr>tick := Suc (tick w)\<rparr>"
  "snd (Math_random_toString36 w) = w\<lparr>tick := Suc (tick w)\<rparr>"
  "snd (external_call w) = w\<lparr>tick := Suc (tick w)\<rparr>"
  "fst (Date_now w) = clock (env w) (tick w)"
  "fst (Math_random w) = random (env w) (tick w)"
  "fst (Math_random_toString36 w) = random36 (env w) (tick w)"
  "fst (external_call w) = map_option Error (fault (env w) (tick w))"
  by (simp_all add: Date_now_def Math_random_def Math_random_toString36_def external_call_def)

subsection \<open>Queue statistics\<close>

text \<open>
  C5: for every queue name and every state of Redis, also when reading a length fails,
  the statistics that \<^verbatim>\<open>getQueueStats\<close> returns satisfy \<open>total = pending + failed\<close>.
\<close>

theorem getQueueStats_total:
  "qs_total (fst (getQueueStats queueName w))
     = qs_pending (fst (getQueueStats queueName w)) + qs_failed (fst (getQueueStats queueName w))"
proof -
  obtain r w1 where a: "lLen queueName w = (r, w1)"
    by (cases "lLen queueName w")
  obtain r' w2 where b: "lLen (queueName @ '':failed'') w1 = (r', w2)"
    by (cases "lLen (queueName @ '':failed'') w1")
  show ?thesis
    by (cases r; cases r') (simp_all add: getQueueStats_def a b)
qed

subsection \<open>Partition into batches\<close>

lemma batch_lengths_step:
  assumes "0 < b" "0 < n"
  shows "batch_lengths n b = min b n # batch_lengths (n - b) b"
proof (cases "n < b")
  case True
  with assms show ?thesis by (simp add: batch_lengths_def)
next
  case False
  then have "b \<le> n" by simp
  then have "n div b = Suc ((n - b) div b)" "n mod b = (n - b) mod b"
    using assms(1) by (simp_all add: le_div_geq le_mod_geq)
  with \<open>b \<le> n\<close> show ?thesis by (simp add: batch_lengths_def)
qed

text \<open>
  From index \<open>i\<close> on, the loop appends to what it has the slices of the rest of the
  array; in particular it ends whenever the batch size is positive.
\<close>

lemma createBatches_loop_result:
  assumes "0 < b"
  shows "\<exists>bs. createBatches_loop xs b i acc = Some (acc @ bs) \<and> concat bs = drop i xs
           \<and> map length bs = batch_lengths (length xs - i) b"
proof (induction "length xs - i" arbitrary: i acc rule: less_induct)
  case less
  show ?case
  proof (cases "i < length xs")
    case False
    then show ?thesis
      by (subst createBatches_loop.simps) (simp add: batch_lengths_def)
  next
    case True
    let ?s = "slice xs i (i + b)"
    from True assms have "length xs - (i + b) < length xs - i" by simp
    from less[OF this, of "acc @ [?s]"] obtain bs where
      bs: "createBatches_loop xs b (i + b) (acc @ [?s]) = Some ((acc @ [?s]) @ bs)"
          "concat bs = drop (i + b) xs"
          "map length bs = batch_lengths (length xs - (i + b)) b"
      by blast
    have 1: "createBatches_loop xs b i acc = Some (acc @ (?s # bs))"
      using True bs(1) by (subst createBatches_loop.simps) simp
    have 2: "concat (?s # bs) = drop i xs"
      using bs(2) by (simp add: slice_def add.commute[of i b] flip: drop_drop)
    have 3: "map length (?s # bs) = batch_lengths (length xs - i) b"
      using bs(3) True assms batch_lengths_step[of b "length xs - i"]
      by (simp add: slice_def)
    from 1 2 3 show ?thesis by blast
  qed
qed

lemma ceil_div_10: "(n::nat) div 10 + (if n mod 10 = 0 then 0 else 1) = (n + 9) div 10"
  by presburger

lemma createBatches_10:
  "\<exists>bs. createBatches xs batchSize = Some bs \<and> concat bs = xs
      \<and> map length bs = batch_lengths (length xs) 10"
  using createBatches_loop_result[of 10 xs 0 "[]"]
  by (simp add: createBatches_def batchSize_def)

text \<open>
  C6: a list of \<open>N\<close> recipients is cut into \<open>\<lceil>N / 10\<rceil>\<close> batches, each of ten recipients
  except possibly the last, which has the \<open>N mod 10\<close> that remain; the batches
  concatenated in order are the list.
\<close>

theorem createBatches_partition:
  "\<exists>batches. createBatches recipients batchSize = Some batches
      \<and> length batches = (length recipients + 9) div 10
      \<and> map length batches =
          replicate (length recipients div 10) 10
          @ (if length recipients mod 10 = 0 then [] else [length recipients mod 10])
      \<and> concat batches = recipients"
proof -
  obtain bs where bs: "createBatches recipients batchSize = Some bs"
     "concat bs = recipients" "map length bs = batch_lengths (length recipients) 10"
    using createBatches_10[of recipients] by blast
  have "length bs = length (map length bs)" by simp
  also have "\<dots> = length recipients div 10 + (if length recipients mod 10 = 0 then 0 else 1)"
    unfolding bs(3) by (simp add: batch_lengths_def)
  finally have 1: "length bs = (length recipients + 9) div 10"
    by (simp only: ceil_div_10)
  have 3: "map length bs = replicate (length recipients div 10) 10
          @ (if length recipients mod 10 = 0 then [] else [length recipients mod 10])"
    using bs(3) by (simp add: batch_lengths_def)
  from 1 bs(1) 3 bs(2) show ?thesis by blast
qed

subsection \<open>The vendor's counters\<close>

lemma updateStats_fields:
  "totalSent (updateStats b s) = totalSent s + 1"
  "successful (updateStats b s) = successful s + (if b then 1 else 0)"
  "failed (updateStats b s) = failed s + (if b then 0 else 1)"
  by (simp_all add: updateStats_def Let_def)

lemma updateStats_run:
  "successful (foldl (\<lambda>s b. updateStats b s) s bs) + failed (foldl (\<lambda>s b. updateStats b s) s bs)
     = successful s + failed s + length bs
   \<and> totalSent (foldl (\<lambda>s b. updateStats b s) s bs) = totalSent s + length bs"
  by (induction bs arbitrary: s) (simp_all add: updateStats_fields)

lemma sendEmail_deliveryStats:
  "deliveryStats (snd (sendEmail emailData w)) =
     (case fault (env w) (tick w) of
        None \<Rightarrow> updateStats (random (env w) (tick w + 2) < fl (9 / 10)) (deliveryStats w)
      | Some e \<Rightarrow> deliveryStats w)"
  by (simp add: sendEmail_def simulateDelay_def generateVendorMessageId_def getRandomDelay_def
        getRandomFailureReason_def console_log_def console_error_def
        Date_now_def Math_random_def Math_random_toString36_def external_call_def
        split_def Let_def split: option.splits)

text \<open>
  C10: a send decision adds exactly one to \<open>totalSent\<close> and one to either \<open>successful\<close>
  or \<open>failed\<close>, so no counter decreases; \<^verbatim>\<open>sendEmail\<close> takes one decision, the draw
  being below 0.9 or not, unless the vendor call throws, and then leaves the counters;
  and after any sequence of decisions from the state that the constructor and
  \<^verbatim>\<open>resetStats\<close> set, \<open>successful + failed = totalSent\<close>, the number of decisions.
\<close>

theorem vendor_stats_invariant:
  "totalSent (updateStats isSuccess s) = totalSent s + 1
   \<and> successful (updateStats isSuccess s) = successful s + (if isSuccess then 1 else 0)
   \<and> failed (updateStats isSuccess s) = failed s + (if isSuccess then 0 else 1)
   \<and> deliveryStats (snd (sendEmail emailData w)) =
        (case fault (env w) (tick w) of
           None \<Rightarrow> updateStats (random (env w) (tick w + 2) < fl (9 / 10)) (deliveryStats w)
         | Some e \<Rightarrow> deliveryStats w)
   \<and> successful (foldl (\<lambda>s b. updateStats b s) resetStats decisions)
       + failed (foldl (\<lambda>s b. updateStats b s) resetStats decisions)
       = totalSent (foldl (\<lambda>s b. updateStats b s) resetStats decisions)
   \<and> totalSent (foldl (\<lambda>s b. updateStats b s) resetStats decisions) = length decisions"
  using updateStats_run[of resetStats decisions] sendEmail_deliveryStats[of emailData w]
  by (simp add: updateStats_fields resetStats_def)

subsection \<open>Decimal numerals\<close>










subsection \<open>The broker and the consumer loop\<close>

lemma console_fields [simp]:
  "queues (console_log s w) = queues w" "tick (console_log s w) = tick w"
  "env (console_log s w) = env w"
  "queues (console_error s w) = queues w" "tick (console_error s w) = tick w"
  "env (console_error s w) = env w"
  "queues (console_warn s w) = queues w" "tick (console_warn s w) = tick w"
  "env (console_warn s w) = env w"
  by (simp_all add: console_log_def console_error_def console_warn_def)






subsection \<open>The scenario, evaluated\<close>

lemma scenario_fields [simp]:
  "env (scenario_world faulty) = scenario_env faulty"
  "tick (scenario_world faulty) = 0"
  "console (scenario_world faulty) = []"
  "queues (scenario_world faulty) = (\<lambda>q. [])"
  "campaigns (scenario_world faulty) = [''c1'' \<mapsto> pending_campaign]"
  "journal (scenario_world faulty) = []"
  "communication_logs (scenario_world faulty) = []"
  "deliveryStats (scenario_world faulty) = resetStats"
  "timers (scenario_world faulty) = []"
  "clock (scenario_env faulty) k = 1000 + k"
  "random (scenario_env faulty) k = (if k < 20 then 1 / 2 else 19 / 20)"
  "random36 (scenario_env faulty) k = ''0.k3x9q2m7pzw4''"
  "fault (scenario_env faulty) k =
     (if k \<in> set faulty then Some (''connection lost #'' @ decimal k) else None)"
  by (simp_all add: scenario_world_def scenario_env_def)



subsection \<open>Dead letters\<close>






subsection \<open>Jobs of an unknown type\<close>

text \<open>
  C2, as the code has it. The campaign dispatcher, given a job whose type is not
  \<^verbatim>\<open>DELIVER_CAMPAIGN\<close>, logs the type and returns normally, having changed nothing but
  the console. The customer dispatcher, given a job whose type is none of its five,
  throws \<^verbatim>\<open>Unknown job type: <type>\<close>; its catch clause logs the error and throws it
  again, so the consumer loop treats the job as failed.
\<close>

theorem unknown_job_type:
  "(j_type job \<noteq> Some ''DELIVER_CAMPAIGN'' \<longrightarrow>
      processCampaignJob job w =
        Some (Inr (),
              console_log ('' Unknown campaign job type: '' @ interpolate (j_type job))
                (console_log ('' Processing campaign job: '' @ interpolate (j_type job)
                              @ '' for campaign '' @ campaignId (payload job)) w)))
   \<and> (j_type job' \<notin> {Some ''CREATE_CUSTOMER'', Some ''UPDATE_CUSTOMER'', Some ''DELETE_CUSTOMER'',
                      Some ''BULK_IMPORT_CUSTOMERS'', Some ''UPDATE_CUSTOMER_STATS''} \<longrightarrow>
      processCustomerJob this job' w' =
        Some (Inl (Error (''Unknown job type: '' @ interpolate (j_type job'))),
              console_error (''Customer job '' @ interpolate (j_type job') @ '' failed: ''
                             @ ''Unknown job type: '' @ interpolate (j_type job'))
                (console_log (''Processing customer job: '' @ interpolate (j_type job')) w')))"
  by (simp add: processCampaignJob_def processCustomerJob_def processCustomerJob_switch_def Let_def)

text \<open>The theorem on a job of type \<^verbatim>\<open>ARCHIVE_CAMPAIGN\<close> and one of type \<^verbatim>\<open>ARCHIVE_CUSTOMER\<close>.\<close>

theorem unknown_job_type_witness:
  "map_option fst (processCampaignJob (scenario_job ''ARCHIVE_CAMPAIGN'' 0) (scenario_world []))
     = Some (Inr ())
   \<and> map_option fst (processCustomerJob scenario_handlers (scenario_job ''ARCHIVE_CUSTOMER'' 0)
                       (scenario_world []))
     = Some (Inl (Error ''Unknown job type: ARCHIVE_CUSTOMER''))"
  using unknown_job_type[of "scenario_job ''ARCHIVE_CAMPAIGN'' 0" "scenario_world []"
          "scenario_job ''ARCHIVE_CUSTOMER'' 0" scenario_handlers "scenario_world []"]
  by (simp add: scenario_job_def interpolate_def)

text \<open>
  C2 as stated fails for the customer dispatcher: a job of the unknown type
  \<^verbatim>\<open>ARCHIVE_CUSTOMER\<close> makes it raise.
\<close>

theorem unknown_job_type_counterexample:
  "map_option fst (processCustomerJob scenario_handlers (scenario_job ''ARCHIVE_CUSTOMER'' 0)
                     (scenario_world []))
     = Some (Inl (Error ''Unknown job type: ARCHIVE_CUSTOMER''))"
  by (simp add: processCustomerJob_def processCustomerJob_switch_def Let_def scenario_job_def
        interpolate_def)

subsection \<open>Steps that leave the campaigns alone\<close>

lemma console_other_fields [simp]:
  "campaigns (console_log s w) = campaigns w" "journal (console_log s w) = journal w"
  "campaigns (console_error s w) = campaigns w" "journal (console_error s w) = journal w"
  "campaigns (console_warn s w) = campaigns w" "journal (console_warn s w) = journal w"
  "communication_logs (console_log s w) = communication_logs w"
  "communication_logs (console_error s w) = communication_logs w"
  "communication_logs (console_warn s w) = communication_logs w"
  by (simp_all add: console_log_def console_error_def console_warn_def)

lemma unchanged_refl [simp]: "unchanged w w"
  by (simp add: unchanged_def)

lemma unchanged_trans: "unchanged w w1 \<Longrightarrow> unchanged w1 w2 \<Longrightarrow> unchanged w w2"
  by (simp add: unchanged_def)

lemma unchanged_reads [simp]:
  "unchanged w (w\<lparr>tick := t\<rparr>)"
  "unchanged w (console_log s w)" "unchanged w (console_error s w)" "unchanged w (console_warn s w)"
  "unchanged w (snd (Date_now w))" "unchanged w (snd (Math_random w))"
  "unchanged w (snd (Math_random_toString36 w))" "unchanged w (snd (external_call w))"
  by (simp_all add: unchanged_def console_log_def console_error_def console_warn_def)

lemma unchanged_step: "unchanged w w1 \<Longrightarrow> unchanged w1 w2 \<Longrightarrow> unchanged w w2"
  by (rule unchanged_trans)

lemma unchanged_vendor_reads [simp]:
  "unchanged w (simulateDelay a b w)"
  "unchanged w (snd (getRandomDelay a b w))"
  "unchanged w (snd (getRandomFailureReason w))"
  "unchanged w (snd (generateVendorMessageId w))"
  "unchanged w (snd (generateMessageId w))"
  by (simp_all add: unchanged_def simulateDelay_def getRandomDelay_def getRandomFailureReason_def
        generateVendorMessageId_def generateMessageId_def split_def Let_def)

lemma unchanged_sendEmail [simp]: "unchanged w (snd (sendEmail emailData w))"
  by (simp add: unchanged_def sendEmail_def simulateDelay_def generateVendorMessageId_def
        getRandomDelay_def getRandomFailureReason_def console_log_def console_error_def
        Date_now_def Math_random_def Math_random_toString36_def external_call_def
        split_def Let_def split: option.splits)

lemma sendEmail_returns: "\<exists>result. fst (sendEmail emailData w) = Inr result"
  by (simp add: sendEmail_def split_def Let_def split: option.splits prod.splits)

lemma sendBulkEmails_loop_effect:
  "unchanged w (snd (sendBulkEmails_loop emails results w))
   \<and> br_sent (fst (sendBulkEmails_loop emails results w))
       + br_failed (fst (sendBulkEmails_loop emails results w))
     = br_sent results + br_failed results + length emails"
proof (induction emails arbitrary: results w)
  case Nil
  show ?case by simp
next
  case (Cons email rest)
  obtain result where r: "fst (sendEmail email w) = Inr result"
    using sendEmail_returns by blast
  define w1 where "w1 = snd (sendEmail email w)"
  have se: "sendEmail email w = (Inr result, w1)"
    using r by (simp add: w1_def prod_eq_iff)
  have u1: "unchanged w w1" by (simp add: w1_def)
  define w2 where "w2 = (if rest \<noteq> [] then simulateDelay 10 50 w1 else w1)"
  have u2: "unchanged w w2"
    using u1 unchanged_vendor_reads(1)[of w1 10 50] by (simp add: w2_def unchanged_def)
  define results2 where "results2 =
     (let results1 = (if sr_success result \<and> sr_status result = ''SENT''
                           then results\<lparr>br_sent := br_sent results + 1\<rparr>
                           else results\<lparr>br_failed := br_failed results + 1\<rparr>)
      in results1\<lparr>br_details := br_details results1 @
                            [\<lparr>bd_to = em_to email, bd_messageId = em_messageId email,
                              bd_vendorMessageId = sr_vendorMessageId result,
                              bd_status = sr_status result, bd_error = None\<rparr>]\<rparr>)"
  have step: "sendBulkEmails_loop (email # rest) results w = sendBulkEmails_loop rest results2 w2"
    by (simp add: se results2_def w2_def Let_def)
  have c: "br_sent results2 + br_failed results2 = br_sent results + br_failed results + 1"
    by (simp add: results2_def Let_def)
  from Cons.IH[of w2 results2] u2 c show ?case
    unfolding step by (simp add: unchanged_def)
qed


lemma sendBulkEmails_effect:
  "unchanged w (snd (sendBulkEmails emailBatch w))"
  "fst (sendBulkEmails emailBatch w) = Inr batchResult \<Longrightarrow>
     br_sent batchResult + br_failed batchResult = length emailBatch"
proof -
  let ?r = "\<lparr>br_sent = 0, br_failed = 0, br_total = length emailBatch, br_details = []\<rparr>"
  let ?w1 = "console_log (''Vendor API: Processing bulk batch of ''
                                 @ decimal (length emailBatch) @ '' emails'') (snd (external_call w))"
  have u: "unchanged w ?w1"
    by (rule unchanged_trans[of _ "snd (external_call w)"]) simp_all
  note l = sendBulkEmails_loop_effect[of ?w1 emailBatch ?r]
  have e: "unchanged w (snd (external_call w))" by simp
  show "unchanged w (snd (sendBulkEmails emailBatch w))"
    using l u e
    by (simp add: sendBulkEmails_def split_def Let_def unchanged_def console_log_def
             split: option.splits)
  show "br_sent batchResult + br_failed batchResult = length emailBatch"
    if "fst (sendBulkEmails emailBatch w) = Inr batchResult"
    using l that
    by (auto simp: sendBulkEmails_def split_def Let_def split: option.splits)
qed


lemma unchanged_collections [simp]:
  "unchanged w (snd (CommunicationLog_insertMany logs w))"
  "unchanged w (snd (CommunicationLog_updateMany ids update w))"
  "unchanged w (snd (CommunicationLog_findOneAndUpdate messageId update w))"
  by (simp_all add: unchanged_def CommunicationLog_insertMany_def CommunicationLog_updateMany_def
       CommunicationLog_findOneAndUpdate_def external_call_def split: option.splits)

lemma insertMany_returns:
  "fst (CommunicationLog_insertMany logs w) = Inr logs' \<Longrightarrow> logs' = logs"
  by (simp add: CommunicationLog_insertMany_def external_call_def split: option.splits)

lemma new_logs_effect:
  "unchanged w (snd (new_logs customers' campaignId' mc w))
   \<and> length (fst (new_logs customers' campaignId' mc w)) = length customers'"
proof (induction customers' arbitrary: w)
  case Nil
  show ?case by simp
next
  case (Cons customer rest)
  have u: "unchanged w (snd (generateMessageId w))" by simp
  from Cons[of "snd (generateMessageId w)"] u show ?case
    by (simp add: split_def Let_def unchanged_def)
qed

lemma createCommunicationLogs_effect:
  "unchanged w (snd (createCommunicationLogs customers' campaignId' mc w))"
  "fst (createCommunicationLogs customers' campaignId' mc w) = Inr logs \<Longrightarrow>
     length logs = length customers'"
proof -
  note n = new_logs_effect[of w customers' campaignId' mc]
  have i: "unchanged (snd (new_logs customers' campaignId' mc w))
     (snd (CommunicationLog_insertMany (fst (new_logs customers' campaignId' mc w))
            (snd (new_logs customers' campaignId' mc w))))"
    by simp
  show "unchanged w (snd (createCommunicationLogs customers' campaignId' mc w))"
    using n i by (simp add: createCommunicationLogs_def split_def Let_def unchanged_def)
  show "length logs = length customers'"
    if "fst (createCommunicationLogs customers' campaignId' mc w) = Inr logs"
    using n that insertMany_returns[of "fst (new_logs customers' campaignId' mc w)"
                    "snd (new_logs customers' campaignId' mc w)" logs]
    by (simp add: createCommunicationLogs_def split_def Let_def)
qed

lemma deliverCampaign_batch_effect:
  "unchanged w (snd (deliverCampaign_batch job n batchIndex batch w))"
  "fst (deliverCampaign_batch job n batchIndex batch w) = Inr (sent, failed') \<Longrightarrow>
     sent + failed' = length batch"
proof -
  let ?w1 = "console_log ('' Processing batch '' @ decimal (batchIndex + 1) @ ''/'' @ decimal n
                            @ '' ('' @ decimal (length batch) @ '' emails)'') w"
  obtain r w2 where c: "createCommunicationLogs batch (campaignId job) (messageContent job) ?w1 = (r, w2)"
    by (cases "createCommunicationLogs batch (campaignId job) (messageContent job) ?w1")
  have u2: "unchanged w w2"
    using createCommunicationLogs_effect(1)[of ?w1 batch "campaignId job" "messageContent job"] c
    by (simp add: unchanged_def)
  show "unchanged w (snd (deliverCampaign_batch job n batchIndex batch w))"
  proof (cases r)
    case (Inl error)
    then show ?thesis using c u2 by (simp add: deliverCampaign_batch_def Let_def)
  next
    case (Inr communicationLogs)
    let ?emailBatch = "map (\<lambda>(customer, l).
                            \<lparr>em_messageId = l_message_id l, em_to = cu_email customer,
                             em_campaignId = campaignId job, em_customerId = cu_id customer\<rparr>)
                         (zip batch communicationLogs)"
    obtain r3 w3 where s: "sendBulkEmails ?emailBatch w2 = (r3, w3)"
      by (cases "sendBulkEmails ?emailBatch w2")
    have u3: "unchanged w w3"
      using sendBulkEmails_effect(1)[of w2 ?emailBatch] s u2 by (simp add: unchanged_def)
    show ?thesis
    proof (cases r3)
      case (Inr batchResult)
      then show ?thesis
        using c s \<open>r = Inr communicationLogs\<close> u3
        by (simp add: deliverCampaign_batch_def Let_def unchanged_def)
    next
      case (Inl batchError)
      let ?w5 = "snd (Date_now (console_error ('' Batch '' @ decimal (batchIndex + 1) @ '' failed: ''
                                                @ message batchError) w3))"
      have u5: "unchanged w ?w5"
        using u3 by (simp add: unchanged_def)
      have u6: "unchanged w (snd (CommunicationLog_updateMany ids upd ?w5))" for ids upd
        by (rule unchanged_trans[OF u5]) simp
      obtain r6 w6 where m: "CommunicationLog_updateMany (map l_message_id communicationLogs)
                                   (\<lambda>l. l\<lparr>l_status := ''failed'',
                                           l_failure_reason :=
                                             Some (''Batch processing error: '' @ message batchError),
                                           l_delivered_at := Some (Date (clock (env w3) (tick w3)))\<rparr>) ?w5
                                 = (r6, w6)"
        by (cases "CommunicationLog_updateMany (map l_message_id communicationLogs)
                                   (\<lambda>l. l\<lparr>l_status := ''failed'',
                                           l_failure_reason :=
                                             Some (''Batch processing error: '' @ message batchError),
                                           l_delivered_at := Some (Date (clock (env w3) (tick w3)))\<rparr>) ?w5")
      have u6': "unchanged w w6" using u6 m by (metis snd_conv)
      show ?thesis
        using c s \<open>r = Inr communicationLogs\<close> Inl m u6'
        by (cases r6) (simp_all add: deliverCampaign_batch_def Let_def split_def)
    qed
  qed
  show "sent + failed' = length batch"
    if h: "fst (deliverCampaign_batch job n batchIndex batch w) = Inr (sent, failed')"
  proof (cases r)
    case (Inl error)
    then show ?thesis using c h by (simp add: deliverCampaign_batch_def Let_def)
  next
    case (Inr communicationLogs)
    have len: "length communicationLogs = length batch"
      using createCommunicationLogs_effect(2)[of batch "campaignId job" "messageContent job" ?w1
              communicationLogs] c Inr by simp
    let ?emailBatch = "map (\<lambda>(customer, l).
                            \<lparr>em_messageId = l_message_id l, em_to = cu_email customer,
                             em_campaignId = campaignId job, em_customerId = cu_id customer\<rparr>)
                         (zip batch communicationLogs)"
    obtain r3 w3 where s: "sendBulkEmails ?emailBatch w2 = (r3, w3)"
      by (cases "sendBulkEmails ?emailBatch w2")
    show ?thesis
    proof (cases r3)
      case (Inr batchResult)
      have "br_sent batchResult + br_failed batchResult = length ?emailBatch"
        using sendBulkEmails_effect(2)[of ?emailBatch w2 batchResult] s Inr by simp
      then show ?thesis
        using c s \<open>r = Inr communicationLogs\<close> Inr h len
        by (auto simp: deliverCampaign_batch_def Let_def)
    next
      case (Inl batchError)
      then show ?thesis
        using c s \<open>r = Inr communicationLogs\<close> h
        by (simp add: deliverCampaign_batch_def Let_def split_def split: prod.splits sum.splits)
    qed
  qed
qed

lemma deliverCampaign_batches_effect:
  "unchanged w (snd (deliverCampaign_batches job n batchIndex batches sentCount failedCount w))
   \<and> (\<forall>sent failed'.
        fst (deliverCampaign_batches job n batchIndex batches sentCount failedCount w)
          = Inr (sent, failed')
        \<longrightarrow> sent + failed' = sentCount + failedCount + length (concat batches))"
proof (induction batches arbitrary: batchIndex sentCount failedCount w)
  case Nil
  show ?case by simp
next
  case (Cons batch rest)
  obtain r w1 where b: "deliverCampaign_batch job n batchIndex batch w = (r, w1)"
    by (cases "deliverCampaign_batch job n batchIndex batch w")
  have u1: "unchanged w w1"
    using deliverCampaign_batch_effect(1)[of w job n batchIndex batch] b by simp
  show ?case
  proof (cases r)
    case (Inl error)
    then show ?thesis using b u1 by simp
  next
    case (Inr counts)
    obtain s f where counts: "counts = (s, f)" by (cases counts)
    have sf: "s + f = length batch"
      using deliverCampaign_batch_effect(2)[of job n batchIndex batch w s f] b Inr counts by simp
    let ?X = "deliverCampaign_batches job n (batchIndex + 1) rest (sentCount + s) (failedCount + f) w1"
    have step: "deliverCampaign_batches job n batchIndex (batch # rest) sentCount failedCount w = ?X"
      using b Inr counts by simp
    have ih1: "unchanged w1 (snd ?X)"
      using Cons[of w1 "batchIndex + 1" "sentCount + s" "failedCount + f"] by blast
    have ih2: "sent + failed' = sentCount + s + (failedCount + f) + length (concat rest)"
      if "fst ?X = Inr (sent, failed')" for sent failed'
      using Cons[of w1 "batchIndex + 1" "sentCount + s" "failedCount + f"] that by blast
    show ?thesis
      unfolding step
    proof (intro conjI allI impI)
      show "unchanged w (snd ?X)" by (rule unchanged_trans[OF u1 ih1])
    next
      fix sent failed'
      assume "fst ?X = Inr (sent, failed')"
      from ih2[OF this] sf
      show "sent + failed' = sentCount + failedCount + length (concat (batch # rest))"
        by simp
    qed
  qed
qed

subsection \<open>The outcomes of a delivery\<close>

lemma findByIdAndUpdate_effect:
  "fst (Campaign_findByIdAndUpdate id' update w) =
     (case fault (env w) (tick w) of Some m \<Rightarrow> Inl (Error m) | None \<Rightarrow> Inr (campaigns w id'))"
  "env (snd (Campaign_findByIdAndUpdate id' update w)) = env w"
  "tick (snd (Campaign_findByIdAndUpdate id' update w)) = Suc (tick w)"
  "queues (snd (Campaign_findByIdAndUpdate id' update w)) = queues w"
  "campaigns (snd (Campaign_findByIdAndUpdate id' update w)) =
     (case fault (env w) (tick w) of
        Some m \<Rightarrow> campaigns w
      | None \<Rightarrow> (case campaigns w id' of
                   None \<Rightarrow> campaigns w
                 | Some c \<Rightarrow> (campaigns w)(id' \<mapsto> update c)))"
  "journal (snd (Campaign_findByIdAndUpdate id' update w)) =
     (case fault (env w) (tick w) of
        Some m \<Rightarrow> journal w
      | None \<Rightarrow> (case campaigns w id' of
                   None \<Rightarrow> journal w
                 | Some c \<Rightarrow> journal w @ [(id', update c)]))"
  by (simp_all add: Campaign_findByIdAndUpdate_def external_call_def split: option.splits)

lemma deliverCampaign_try_cases:
  assumes c: "campaigns w (campaignId job) = Some c"
  shows "\<exists>r w'. deliverCampaign_try job w = Some (r, w') \<and> env w' = env w \<and> queues w' = queues w \<and>
     ((\<exists>e. r = Inl e \<and> campaigns w' = campaigns w \<and> journal w' = journal w)
      \<or> (\<exists>e. r = Inl e
            \<and> campaigns w' = (campaigns w)(campaignId job \<mapsto> processing (clock (env w) (tick w)) c)
            \<and> journal w' = journal w @ [(campaignId job, processing (clock (env w) (tick w)) c)])
      \<or> (\<exists>date sentCount failedCount. r = Inr ()
            \<and> sentCount + failedCount = length (customers job)
            \<and> campaigns w' = (campaigns w)(campaignId job \<mapsto>
                 completed date sentCount failedCount (length (customers job))
                   (processing (clock (env w) (tick w)) c))
            \<and> journal w' = journal w
                 @ [(campaignId job, processing (clock (env w) (tick w)) c),
                    (campaignId job, completed date sentCount failedCount (length (customers job))
                                       (processing (clock (env w) (tick w)) c))]))"
proof -
  let ?id = "campaignId job"
  let ?t = "clock (env w) (tick w)"
  let ?P = "processing ?t c"
  let ?w1 = "w\<lparr>tick := Suc (tick w)\<rparr>"
  let ?u1 = "\<lambda>c. c\<lparr>c_status := ''processing'', c_started_at := Some ?t\<rparr>"
  let ?w2 = "snd (Campaign_findByIdAndUpdate ?id ?u1 ?w1)"
  show ?thesis
  proof (cases "fault (env w) (Suc (tick w))")
    case (Some m)
    have "deliverCampaign_try job w = Some (Inl (Error m), ?w2)"
      using Some by (subst deliverCampaign_try_def) (simp add: split_def Let_def findByIdAndUpdate_effect(1))
    moreover have "env ?w2 = env w" "queues ?w2 = queues w" "campaigns ?w2 = campaigns w"
      "journal ?w2 = journal w"
      using Some by (simp_all add: findByIdAndUpdate_effect)
    ultimately show ?thesis by blast
  next
    case None
    let ?w3 = "console_log ('' Starting campaign delivery: '' @ campaignId job @ '' to ''
                                     @ decimal (length (customers job)) @ '' customers'') ?w2"
    have w3: "env ?w3 = env w" "queues ?w3 = queues w"
      "campaigns ?w3 = (campaigns w)(?id \<mapsto> ?P)" "journal ?w3 = journal w @ [(?id, ?P)]"
      using None c by (simp_all add: findByIdAndUpdate_effect processing_def)
    obtain bs where bs: "createBatches (customers job) batchSize = Some bs"
      "concat bs = customers job"
      using createBatches_10[of "customers job"] by blast
    obtain r4 w4 where b: "deliverCampaign_batches job (length bs) 0 bs 0 0 ?w3 = (r4, w4)"
      by (cases "deliverCampaign_batches job (length bs) 0 bs 0 0 ?w3")
    note be = deliverCampaign_batches_effect[of ?w3 job "length bs" 0 bs 0 0]
    have w4: "env w4 = env w" "queues w4 = queues w"
      "campaigns w4 = (campaigns w)(?id \<mapsto> ?P)" "journal w4 = journal w @ [(?id, ?P)]"
      using be b w3 by (simp_all add: unchanged_def)
    have try1: "deliverCampaign_try job w =
       (case r4 of
          Inl error \<Rightarrow> Some (Inl error, w4)
        | Inr (sentCount, failedCount) \<Rightarrow>
            (let (date', w5) = Date_now w4
             in (case Campaign_findByIdAndUpdate (campaignId job)
                        (\<lambda>c. c\<lparr>c_status := ''completed'',
                                c_completed_at := Some date',
                                c_delivery_stats :=
                                  Some \<lparr>dl_sent = sentCount,
                                        dl_failed = failedCount,
                                        dl_total = length (customers job),
                                        dl_success_rate =
                                          percentage sentCount
                                            (length (customers job))\<rparr>\<rparr>) w5 of
                   (Inl error, w6) \<Rightarrow> Some (Inl error, w6)
                 | (Inr found', w6) \<Rightarrow>
                     Some (Inr (),
                           console_log ('' Campaign '' @ campaignId job
                                        @ '' completed: '' @ decimal sentCount
                                        @ '' sent, '' @ decimal failedCount
                                        @ '' failed'') w6))))"
      using None bs(1) b
      by (subst deliverCampaign_try_def) (simp add: split_def Let_def findByIdAndUpdate_effect(1) split: sum.splits)
    show ?thesis
    proof (cases r4)
      case (Inl error)
      then have "deliverCampaign_try job w = Some (Inl error, w4)"
        using try1 by simp
      with w4 show ?thesis by blast
    next
      case (Inr counts)
      obtain s f where counts: "counts = (s, f)" by (cases counts)
      have sf: "s + f = length (customers job)"
        using be b Inr counts bs(2) by simp
      let ?t' = "clock (env w4) (tick w4)"
      let ?u2 = "\<lambda>c. c\<lparr>c_status := ''completed'', c_completed_at := Some ?t',
                        c_delivery_stats :=
                          Some \<lparr>dl_sent = s, dl_failed = f, dl_total = length (customers job),
                                dl_success_rate = percentage s (length (customers job))\<rparr>\<rparr>"
      let ?w5 = "w4\<lparr>tick := Suc (tick w4)\<rparr>"
      let ?w6 = "snd (Campaign_findByIdAndUpdate ?id ?u2 ?w5)"
      show ?thesis
      proof (cases "fault (env w4) (Suc (tick w4))")
        case (Some m)
        have "deliverCampaign_try job w = Some (Inl (Error m), ?w6)"
          using try1 Inr counts Some by (simp add: split_def Let_def findByIdAndUpdate_effect(1))
        moreover have "env ?w6 = env w" "queues ?w6 = queues w"
          "campaigns ?w6 = (campaigns w)(?id \<mapsto> ?P)" "journal ?w6 = journal w @ [(?id, ?P)]"
          using Some w4 by (simp_all add: findByIdAndUpdate_effect)
        ultimately show ?thesis by blast
      next
        case None
        let ?w7 = "console_log ('' Campaign '' @ campaignId job
                                        @ '' completed: '' @ decimal s
                                        @ '' sent, '' @ decimal f
                                        @ '' failed'') ?w6"
        have "deliverCampaign_try job w = Some (Inr (), ?w7)"
          using try1 Inr counts None by (simp add: split_def Let_def findByIdAndUpdate_effect(1))
        moreover have "env ?w7 = env w" "queues ?w7 = queues w"
          "campaigns ?w7 = (campaigns w)(?id \<mapsto> completed ?t' s f (length (customers job)) ?P)"
          "journal ?w7 = journal w @ [(?id, ?P),
              (?id, completed ?t' s f (length (customers job)) ?P)]"
          using None w4 by (simp_all add: findByIdAndUpdate_effect completed_def)
        ultimately show ?thesis using sf by blast
      qed
    qed
  qed
qed


lemma deliverCampaign_catch:
  assumes "deliverCampaign_try job w = Some (Inl error, w1)"
  shows "\<exists>w'. deliverCampaign job w =
                Some (case fault (env w1) (Suc (tick w1)) of
                        None \<Rightarrow> Inl error | Some m \<Rightarrow> Inl (Error m), w')
           \<and> env w' = env w1 \<and> queues w' = queues w1
           \<and> campaigns w' =
               (case fault (env w1) (Suc (tick w1)) of
                  Some m \<Rightarrow> campaigns w1
                | None \<Rightarrow> (case campaigns w1 (campaignId job) of
                     None \<Rightarrow> campaigns w1
                   | Some c \<Rightarrow> (campaigns w1)(campaignId job \<mapsto>
                                 failed_with (clock (env w1) (tick w1)) error c)))
           \<and> journal w' =
               (case fault (env w1) (Suc (tick w1)) of
                  Some m \<Rightarrow> journal w1
                | None \<Rightarrow> (case campaigns w1 (campaignId job) of
                     None \<Rightarrow> journal w1
                   | Some c \<Rightarrow> journal w1 @ [(campaignId job,
                                 failed_with (clock (env w1) (tick w1)) error c)]))"
  using assms
  by (cases "fault (env w1) (Suc (tick w1))")
     (simp_all add: deliverCampaign_def split_def Let_def findByIdAndUpdate_effect
        failed_with_def split: option.splits)

lemma deliverCampaign_cases:
  assumes c: "campaigns w (campaignId job) = Some c"
  shows "\<exists>r w' new. deliverCampaign job w = Some (r, w') \<and> env w' = env w \<and> queues w' = queues w
     \<and> journal w' = journal w @ map (Pair (campaignId job)) new
     \<and> campaigns w' = (campaigns w)(campaignId job \<mapsto> last (c # new))
     \<and> ((\<exists>date sentCount failedCount. r = Inr ()
            \<and> sentCount + failedCount = length (customers job)
            \<and> new = [processing (clock (env w) (tick w)) c,
                      completed date sentCount failedCount (length (customers job))
                        (processing (clock (env w) (tick w)) c)])
         \<or> (\<exists>e. r = Inl e \<and> new = [])
         \<or> (\<exists>e date. r = Inl e \<and> new = [failed_with date e c])
         \<or> (\<exists>e. r = Inl e \<and> new = [processing (clock (env w) (tick w)) c])
         \<or> (\<exists>e date. r = Inl e
               \<and> new = [processing (clock (env w) (tick w)) c,
                         failed_with date e (processing (clock (env w) (tick w)) c)]))"
proof -
  let ?id = "campaignId job"
  let ?P = "processing (clock (env w) (tick w)) c"
  from deliverCampaign_try_cases[OF c] obtain r1 w1 where
    t: "deliverCampaign_try job w = Some (r1, w1)" "env w1 = env w" "queues w1 = queues w"
    and alt: "(\<exists>e. r1 = Inl e \<and> campaigns w1 = campaigns w \<and> journal w1 = journal w)
      \<or> (\<exists>e. r1 = Inl e \<and> campaigns w1 = (campaigns w)(?id \<mapsto> ?P)
            \<and> journal w1 = journal w @ [(?id, ?P)])
      \<or> (\<exists>date sentCount failedCount. r1 = Inr ()
            \<and> sentCount + failedCount = length (customers job)
            \<and> campaigns w1 = (campaigns w)(?id \<mapsto>
                 completed date sentCount failedCount (length (customers job)) ?P)
            \<and> journal w1 = journal w
                 @ [(?id, ?P),
                    (?id, completed date sentCount failedCount (length (customers job)) ?P)])"
    by blast
  from alt consider
    (first) e where "r1 = Inl e" "campaigns w1 = campaigns w" "journal w1 = journal w"
  | (later) e where "r1 = Inl e" "campaigns w1 = (campaigns w)(?id \<mapsto> ?P)"
        "journal w1 = journal w @ [(?id, ?P)]"
  | (finished) date s f where "r1 = Inr ()" "s + f = length (customers job)"
        "campaigns w1 = (campaigns w)(?id \<mapsto> completed date s f (length (customers job)) ?P)"
        "journal w1 = journal w @ [(?id, ?P), (?id, completed date s f (length (customers job)) ?P)]"
    by blast
  then show ?thesis
  proof cases
    case finished
    have "deliverCampaign job w = Some (Inr (), w1)"
      using t(1) finished(1) by (simp add: deliverCampaign_def)
    moreover have "journal w1 = journal w @ map (Pair ?id)
         [?P, completed date s f (length (customers job)) ?P]"
      using finished(4) by simp
    moreover have "campaigns w1 = (campaigns w)(?id \<mapsto>
         last (c # [?P, completed date s f (length (customers job)) ?P]))"
      using finished(3) by simp
    ultimately show ?thesis using t(2,3) finished(2) by blast
  next
    case first
    from deliverCampaign_catch[of job w e w1] t(1) first(1) obtain w' where
      k: "deliverCampaign job w =
                Some (case fault (env w1) (Suc (tick w1)) of
                        None \<Rightarrow> Inl e | Some m \<Rightarrow> Inl (Error m), w')"
         "env w' = env w1" "queues w' = queues w1"
         "campaigns w' =
               (case fault (env w1) (Suc (tick w1)) of
                  Some m \<Rightarrow> campaigns w1
                | None \<Rightarrow> (case campaigns w1 ?id of
                     None \<Rightarrow> campaigns w1
                   | Some c \<Rightarrow> (campaigns w1)(?id \<mapsto>
                                 failed_with (clock (env w1) (tick w1)) e c)))"
         "journal w' =
               (case fault (env w1) (Suc (tick w1)) of
                  Some m \<Rightarrow> journal w1
                | None \<Rightarrow> (case campaigns w1 ?id of
                     None \<Rightarrow> journal w1
                   | Some c \<Rightarrow> journal w1 @ [(?id,
                                 failed_with (clock (env w1) (tick w1)) e c)]))"
      by blast
    show ?thesis
    proof (cases "fault (env w1) (Suc (tick w1))")
      case (Some m)
      have "deliverCampaign job w = Some (Inl (Error m), w')" using k(1) Some by simp
      moreover have "journal w' = journal w @ map (Pair ?id) []"
        using k(5) Some first(3) by simp
      moreover have "campaigns w' = (campaigns w)(?id \<mapsto> last (c # []))"
        using k(4) Some first(2) c by (simp add: map_upd_triv)
      ultimately show ?thesis using k(2,3) t(2,3) by (metis (no_types, lifting))
    next
      case None
      let ?F = "failed_with (clock (env w1) (tick w1)) e c"
      have "deliverCampaign job w = Some (Inl e, w')" using k(1) None by simp
      moreover have "journal w' = journal w @ map (Pair ?id) [?F]"
        using k(5) None first(2,3) c by simp
      moreover have "campaigns w' = (campaigns w)(?id \<mapsto> last (c # [?F]))"
        using k(4) None first(2) c by simp
      ultimately show ?thesis using k(2,3) t(2,3) by (metis (no_types, lifting))
    qed
  next
    case later
    from deliverCampaign_catch[of job w e w1] t(1) later(1) obtain w' where
      k: "deliverCampaign job w =
                Some (case fault (env w1) (Suc (tick w1)) of
                        None \<Rightarrow> Inl e | Some m \<Rightarrow> Inl (Error m), w')"
         "env w' = env w1" "queues w' = queues w1"
         "campaigns w' =
               (case fault (env w1) (Suc (tick w1)) of
                  Some m \<Rightarrow> campaigns w1
                | None \<Rightarrow> (case campaigns w1 ?id of
                     None \<Rightarrow> campaigns w1
                   | Some c \<Rightarrow> (campaigns w1)(?id \<mapsto>
                                 failed_with (clock (env w1) (tick w1)) e c)))"
         "journal w' =
               (case fault (env w1) (Suc (tick w1)) of
                  Some m \<Rightarrow> journal w1
                | None \<Rightarrow> (case campaigns w1 ?id of
                     None \<Rightarrow> journal w1
                   | Some c \<Rightarrow> journal w1 @ [(?id,
                                 failed_with (clock (env w1) (tick w1)) e c)]))"
      by blast
    show ?thesis
    proof (cases "fault (env w1) (Suc (tick w1))")
      case (Some m)
      have "deliverCampaign job w = Some (Inl (Error m), w')" using k(1) Some by simp
      moreover have "journal w' = journal w @ map (Pair ?id) [?P]"
        using k(5) Some later(3) by simp
      moreover have "campaigns w' = (campaigns w)(?id \<mapsto> last (c # [?P]))"
        using k(4) Some later(2) by simp
      ultimately show ?thesis using k(2,3) t(2,3) by (metis (no_types, lifting))
    next
      case None
      let ?F = "failed_with (clock (env w1) (tick w1)) e ?P"
      have "deliverCampaign job w = Some (Inl e, w')" using k(1) None by simp
      moreover have "journal w' = journal w @ map (Pair ?id) [?P, ?F]"
        using k(5) None later(2,3) by simp
      moreover have "campaigns w' = (campaigns w)(?id \<mapsto> last (c # [?P, ?F]))"
        using k(4) None later(2) by simp
      ultimately show ?thesis using k(2,3) t(2,3) by (metis (no_types, lifting))
    qed
  qed
qed

end
